theory Spec2Isabelle
  imports Main
begin

section \<open>The server controller of web/controller/server.go\<close>

subsection \<open>Time\<close>

text \<open>
  A \<open>time.Time\<close> is modelled as a number of nanoseconds on one timeline whose origin is
  the Unix epoch (wall clock and monotonic clock are taken to agree), a
  \<open>time.Duration\<close> as a number of nanoseconds. \<open>Sub\<close> is \<open>Time.Sub\<close> of the Go
  standard library: the difference, saturated to the range of a signed 64-bit integer.
  \<open>zeroTime\<close> is the zero value \<open>time.Time{}\<close> (January 1 of year 1, UTC), the value of
  a field the struct literal of \<open>NewServerController\<close> leaves out.
\<close>

type_synonym time = int
type_synonym duration = int

definition minDuration :: duration where
  "minDuration = - (2 ^ 63)"

definition maxDuration :: duration where
  "maxDuration = 2 ^ 63 - 1"

definition Sub :: "time \<Rightarrow> time \<Rightarrow> duration" where
  "Sub t u =
     (if t - u > maxDuration then maxDuration
      else if t - u < minDuration then minDuration
      else t - u)"

definition Second :: duration where
  "Second = 1000000000"

definition Minute :: duration where
  "Minute = 60 * Second"

definition zeroTime :: time where
  "zeroTime = - 62135596800 * Second"

subsection \<open>Data\<close>

text \<open>
  The Go \<open>error\<close> interface is modelled by its message, a nil error by \<open>None\<close>. A slice
  \<open>[]string\<close> is \<open>None\<close> when nil. \<open>service.Status\<close> is declared outside this
  file; it stays a type parameter \<open>'st\<close>, and \<open>*service.Status\<close> is \<open>'st option\<close>.
  A \<open>[]byte\<close> is a list of the 8-bit characters of HOL; the uploaded file is modelled
  by its content.
\<close>

type_synonym error = string
type_synonym bytes = "char list"

record 'st ServerController =
  lastStatus :: "'st option"
  lastGetStatusTime :: time
  lastVersions :: "string list option"
  lastGetVersionsTime :: time

text \<open>
  What a handler does besides changing the fields of the controller is recorded, statement
  by statement in program order, as a list of events: calls of the methods of
  \<open>serverService\<close> and of the request, assignments to the fields, and what is sent to
  the client (the calls of \<open>jsonObj\<close>, \<open>jsonMsg\<close>, \<open>c.Header\<close>,
  \<open>c.Writer.Write\<close> and \<open>c.AbortWithError\<close> with their arguments).
\<close>

datatype 'st payload =
    PStatus "'st option"
  | PVersions "string list option"
  | PString string

datatype msg =
    Msg string
  | I18nWeb string

datatype 'st event =
    Call_GetStatus "'st option"
  | Call_GetXrayVersions
  | Call_StopXrayService
  | Call_RestartXrayService
  | Call_GetDb
  | Call_FormFile string
  | Call_ImportDB bytes
  | Call_FileClose
  | Assign_lastStatus "'st option"
  | Assign_lastGetStatusTime time
  | Assign_lastVersions "string list option"
  | Assign_lastGetVersionsTime time
  | JsonObj "'st payload" "error option"
  | JsonMsg msg "error option"
  | Header string string
  | Write bytes
  | AbortWithError nat error

subsection \<open>Construction and the status poller\<close>

definition NewServerController :: "time \<Rightarrow> 'st ServerController" where
  "NewServerController now =
     \<lparr>lastStatus = None, lastGetStatusTime = now,
      lastVersions = None, lastGetVersionsTime = zeroTime\<rparr>"

definition refreshStatus ::
  "('st option \<Rightarrow> 'st option) \<Rightarrow> 'st ServerController \<Rightarrow> 'st ServerController \<times> 'st event list" where
  "refreshStatus GetStatus a =
     (a\<lparr>lastStatus := GetStatus (lastStatus a)\<rparr>,
      [Call_GetStatus (lastStatus a), Assign_lastStatus (GetStatus (lastStatus a))])"

text \<open>
  \<open>tick\<close> is the function \<open>startTask\<close> registers with the cron scheduler under
  \<open>@every 2s\<close>; \<open>now\<close> is its reading of the clock, \<open>GetStatus\<close> what the status
  collector computes in this run.
\<close>

definition tick ::
  "('st option \<Rightarrow> 'st option) \<Rightarrow> time \<Rightarrow> 'st ServerController \<Rightarrow> 'st ServerController \<times> 'st event list" where
  "tick GetStatus now a =
     (if Sub now (lastGetStatusTime a) > Minute * 3 then (a, [])
      else refreshStatus GetStatus a)"

text \<open>The scheduler running the registered function again and again.\<close>

fun ticks ::
  "(('st option \<Rightarrow> 'st option) \<times> time) list \<Rightarrow> 'st ServerController \<Rightarrow> 'st ServerController \<times> 'st event list" where
  "ticks [] a = (a, [])"
| "ticks ((GetStatus, now) # rest) a =
     (case tick GetStatus now a of (a1, es1) \<Rightarrow>
        (case ticks rest a1 of (a2, es2) \<Rightarrow> (a2, es1 @ es2)))"

definition status :: "time \<Rightarrow> 'st ServerController \<Rightarrow> 'st ServerController \<times> 'st event list" where
  "status now a =
     (a\<lparr>lastGetStatusTime := now\<rparr>,
      [Assign_lastGetStatusTime now, JsonObj (PStatus (lastStatus a)) None])"

subsection \<open>The version list\<close>

text \<open>
  \<open>now\<close> is the clock read on entry, \<open>GetXrayVersions\<close> the pair the collaborator
  returns if it is called, \<open>now2\<close> the clock read after it returned.
\<close>

definition getXrayVersion ::
  "time \<Rightarrow> string list option \<times> error option \<Rightarrow> time \<Rightarrow> 'st ServerController
     \<Rightarrow> 'st ServerController \<times> 'st event list" where
  "getXrayVersion now GetXrayVersions now2 a =
     (if Sub now (lastGetVersionsTime a) \<le> Minute
      then (a, [JsonObj (PVersions (lastVersions a)) None])
      else (case GetXrayVersions of (versions, err) \<Rightarrow>
        if err \<noteq> None
        then (a, [Call_GetXrayVersions, JsonMsg (I18nWeb ''getVersion'') err])
        else (a\<lparr>lastVersions := versions, lastGetVersionsTime := now2\<rparr>,
              [Call_GetXrayVersions, Assign_lastVersions versions,
               Assign_lastGetVersionsTime now2, JsonObj (PVersions versions) None])))"

subsection \<open>Stopping and restarting the process\<close>

definition stopXrayService ::
  "time \<Rightarrow> error option \<Rightarrow> 'st ServerController \<Rightarrow> 'st ServerController \<times> 'st event list" where
  "stopXrayService now err a =
     (a\<lparr>lastGetStatusTime := now\<rparr>,
      [Assign_lastGetStatusTime now, Call_StopXrayService] @
      (if err \<noteq> None then [JsonMsg (Msg '''') err]
       else [JsonMsg (Msg ''Xray stopped'') err]))"

definition restartXrayService ::
  "error option \<Rightarrow> 'st ServerController \<Rightarrow> 'st ServerController \<times> 'st event list" where
  "restartXrayService err a =
     (a, [Call_RestartXrayService] @
         (if err \<noteq> None then [JsonMsg (Msg '''') err]
          else [JsonMsg (Msg ''Xray restarted'') err]))"

subsection \<open>Export and import of the database\<close>

text \<open>
  \<open>filenameRegex\<close> is \<^verbatim>\<open>^[a-zA-Z0-9_\-.]+$\<close>: one or more characters, each a letter,
  a digit, an underscore, a hyphen or a dot, from the start of the text to its end.
\<close>

definition filenameChar :: "char \<Rightarrow> bool" where
  "filenameChar c =
     ((97 \<le> (of_char c :: nat) \<and> (of_char c :: nat) \<le> 122) \<or>
      (65 \<le> (of_char c :: nat) \<and> (of_char c :: nat) \<le> 90) \<or>
      (48 \<le> (of_char c :: nat) \<and> (of_char c :: nat) \<le> 57) \<or>
      c = CHR ''_'' \<or> c = CHR ''-'' \<or> c = CHR ''.'')"

definition filenameRegex_MatchString :: "string \<Rightarrow> bool" where
  "filenameRegex_MatchString s = (s \<noteq> [] \<and> list_all filenameChar s)"

text \<open>
  \<open>getDb_named\<close> is the body of \<open>getDb\<close> from the point where the local variable
  \<open>filename\<close> has its value; \<open>getDb\<close> gives it the constant of the source.
  \<open>GetDb\<close> is the pair the storage collaborator returns.
\<close>

definition getDb_named ::
  "string \<Rightarrow> bytes \<times> error option \<Rightarrow> 'st ServerController \<Rightarrow> 'st ServerController \<times> 'st event list" where
  "getDb_named filename GetDb a =
     (case GetDb of (db, err) \<Rightarrow>
        if err \<noteq> None then (a, [Call_GetDb, JsonMsg (Msg ''get Database'') err])
        else if \<not> filenameRegex_MatchString filename
        then (a, [Call_GetDb, AbortWithError 400 ''invalid filename''])
        else (a, [Call_GetDb,
                  Header ''Content-Type'' ''application/octet-stream'',
                  Header ''Content-Disposition'' (''attachment; filename='' @ filename),
                  Write db]))"

definition getDb ::
  "bytes \<times> error option \<Rightarrow> 'st ServerController \<Rightarrow> 'st ServerController \<times> 'st event list" where
  "getDb GetDb a = getDb_named ''x-ui.db'' GetDb a"

text \<open>
  \<open>FormFile\<close> is the uploaded file and the error of \<open>c.Request.FormFile("db")\<close>,
  \<open>ImportDB\<close> the error the storage collaborator returns, \<open>now\<close> the clock read by the
  deferred function. The deferred calls are kept in the order the \<open>defer\<close> statements
  register them and run last registered first.
\<close>

definition importDB ::
  "bytes \<times> error option \<Rightarrow> error option \<Rightarrow> time \<Rightarrow> 'st ServerController
     \<Rightarrow> 'st ServerController \<times> 'st event list" where
  "importDB FormFile ImportDB now a =
     (case FormFile of (file, err) \<Rightarrow>
        if err \<noteq> None
        then (a, [Call_FormFile ''db'', JsonMsg (Msg ''Error reading db file'') err])
        else
          (let deferred = [Call_FileClose, Call_RestartXrayService, Assign_lastGetStatusTime now]
           in (a\<lparr>lastGetStatusTime := now\<rparr>,
               [Call_FormFile ''db'', Call_ImportDB file] @
               (if ImportDB \<noteq> None then [JsonMsg (Msg '''') ImportDB]
                else [JsonObj (PString ''Import DB'') None]) @
               rev deferred)))"

subsection \<open>Reading event lists\<close>

text \<open>\<open>precedes x y es\<close>: after the first \<open>x\<close> of \<open>es\<close> there is a \<open>y\<close>.\<close>

fun precedes :: "'a \<Rightarrow> 'a \<Rightarrow> 'a list \<Rightarrow> bool" where
  "precedes x y [] = False"
| "precedes x y (e # es) = (if e = x then y \<in> set es else precedes x y es)"

fun is_Assign_lastGetStatusTime :: "'st event \<Rightarrow> bool" where
  "is_Assign_lastGetStatusTime (Assign_lastGetStatusTime t) = True"
| "is_Assign_lastGetStatusTime _ = False"

fun is_Call_GetStatus :: "'st event \<Rightarrow> bool" where
  "is_Call_GetStatus (Call_GetStatus p) = True"
| "is_Call_GetStatus _ = False"

fun is_Call_ImportDB :: "'st event \<Rightarrow> bool" where
  "is_Call_ImportDB (Call_ImportDB f) = True"
| "is_Call_ImportDB _ = False"


fun is_JsonObj :: "'st event \<Rightarrow> bool" where
  "is_JsonObj (JsonObj p e) = True"
| "is_JsonObj _ = False"


section \<open>Properties\<close>

lemma Sub_le_Minute: "Sub t u \<le> Minute \<longleftrightarrow> t - u \<le> Minute"
  by (simp add: Sub_def Minute_def Second_def maxDuration_def minDuration_def)

lemma Sub_gt_3_Minute: "Sub t u > Minute * 3 \<longleftrightarrow> t - u > Minute * 3"
  by (simp add: Sub_def Minute_def Second_def maxDuration_def minDuration_def)

subsection \<open>What the other handlers leave alone\<close>

lemma tick_lastGetStatusTime: "lastGetStatusTime (fst (tick GetStatus now a)) = lastGetStatusTime a"
  by (simp add: tick_def refreshStatus_def)

lemma tick_versions:
  "lastVersions (fst (tick GetStatus now a)) = lastVersions a \<and>
   lastGetVersionsTime (fst (tick GetStatus now a)) = lastGetVersionsTime a"
  by (simp add: tick_def refreshStatus_def)

lemma status_versions:
  "lastVersions (fst (status now a)) = lastVersions a \<and>
   lastGetVersionsTime (fst (status now a)) = lastGetVersionsTime a"
  by (simp add: status_def)

lemma restartXrayService_state: "fst (restartXrayService err a) = a"
  by (simp add: restartXrayService_def)

lemma stopXrayService_versions:
  "lastVersions (fst (stopXrayService now err a)) = lastVersions a \<and>
   lastGetVersionsTime (fst (stopXrayService now err a)) = lastGetVersionsTime a"
  by (simp add: stopXrayService_def)

lemma importDB_versions:
  "lastVersions (fst (importDB FormFile ImportDB now a)) = lastVersions a \<and>
   lastGetVersionsTime (fst (importDB FormFile ImportDB now a)) = lastGetVersionsTime a"
  by (simp add: importDB_def split: prod.splits)

lemma getDb_state: "fst (getDb GetDb a) = a"
  by (simp add: getDb_def getDb_named_def split: prod.splits)

lemma getXrayVersion_fresh:
  "now - lastGetVersionsTime a \<le> Minute \<Longrightarrow>
   getXrayVersion now GetXrayVersions now2 a = (a, [JsonObj (PVersions (lastVersions a)) None])"
  by (simp add: getXrayVersion_def Sub_le_Minute)

lemma getXrayVersion_first_call_fetches:
  "0 \<le> now \<Longrightarrow>
   getXrayVersion now (versions, None) now2 (NewServerController t0) =
     ((NewServerController t0)\<lparr>lastVersions := versions, lastGetVersionsTime := now2\<rparr>,
      [Call_GetXrayVersions, Assign_lastVersions versions,
       Assign_lastGetVersionsTime now2, JsonObj (PVersions versions) None])"
  unfolding getXrayVersion_def Sub_le_Minute
  by (simp add: NewServerController_def zeroTime_def Minute_def Second_def)

lemma filenameRegex_matches_constant: "filenameRegex_MatchString ''x-ui.db''"
  by (simp add: filenameRegex_MatchString_def filenameChar_def)

lemma getDb_never_aborts:
  "getDb (db, None) a =
     (a, [Call_GetDb, Header ''Content-Type'' ''application/octet-stream'',
          Header ''Content-Disposition'' ''attachment; filename=x-ui.db'', Write db])"
  by (simp add: getDb_def getDb_named_def filenameRegex_matches_constant)

lemma ticks_active:
  "\<forall>(GetStatus, now) \<in> set ts. now - lastGetStatusTime a \<le> Minute * 3 \<Longrightarrow>
   ticks ts a = (a', es) \<Longrightarrow>
     lastStatus a' = fold (\<lambda>(GetStatus, now) s. GetStatus s) ts (lastStatus a)
   \<and> lastGetStatusTime a' = lastGetStatusTime a
   \<and> length (filter is_Call_GetStatus es) = length ts
   \<and> length es = 2 * length ts"
proof (induction ts arbitrary: a a' es)
  case Nil
  then show ?case by simp
next
  case (Cons p ts)
  obtain G now where p: "p = (G, now)" by (cases p)
  obtain a1 es1 where t1: "tick G now a = (a1, es1)" by (cases "tick G now a")
  obtain a2 es2 where t2: "ticks ts a1 = (a2, es2)" by (cases "ticks ts a1")
  from Cons.prems(1) p have act: "\<not> Sub now (lastGetStatusTime a) > Minute * 3"
    by (simp add: Sub_gt_3_Minute)
  from t1 act have a1: "a1 = a\<lparr>lastStatus := G (lastStatus a)\<rparr>"
    and es1: "es1 = [Call_GetStatus (lastStatus a), Assign_lastStatus (G (lastStatus a))]"
    by (auto simp: tick_def refreshStatus_def)
  from Cons.prems(1) a1 have "\<forall>(GetStatus, now) \<in> set ts. now - lastGetStatusTime a1 \<le> Minute * 3"
    by simp
  from Cons.IH [OF this t2] have ih:
    "lastStatus a2 = fold (\<lambda>(GetStatus, now) s. GetStatus s) ts (lastStatus a1)"
    "lastGetStatusTime a2 = lastGetStatusTime a1"
    "length (filter is_Call_GetStatus es2) = length ts"
    "length es2 = 2 * length ts"
    by simp_all
  from Cons.prems(2) p t1 t2 have "a' = a2" "es = es1 @ es2" by simp_all
  with ih a1 es1 p show ?case by simp
qed

subsection \<open>The claims\<close>

text \<open>
  C1: when the uploaded file of an import request was read, \<open>RestartXrayService\<close> is
  called exactly once, after the call of \<open>ImportDB\<close>, and the liveness marker is set to
  the time read on the way out, whatever \<open>ImportDB\<close> returned.
\<close>

theorem importDB_always_restarts:
  "snd FormFile = None \<Longrightarrow> importDB FormFile ImportDB now a = (a', es) \<Longrightarrow>
     count_list es Call_RestartXrayService = 1
   \<and> precedes (Call_ImportDB (fst FormFile)) Call_RestartXrayService es
   \<and> length (filter is_Call_ImportDB es) = 1
   \<and> lastGetStatusTime a' = now
   \<and> Assign_lastGetStatusTime now \<in> set es"
  by (cases FormFile) (auto simp: importDB_def)

theorem importDB_always_restarts_witness:
  "snd (''SQLite'', None :: error option) = None
   \<and> importDB (''SQLite'', None) (Some ''not a database'') 500 (NewServerController 0 :: nat ServerController)
       = (\<lparr>lastStatus = None, lastGetStatusTime = 500, lastVersions = None, lastGetVersionsTime = zeroTime\<rparr>,
          [Call_FormFile ''db'', Call_ImportDB ''SQLite'', JsonMsg (Msg '''') (Some ''not a database''),
           Assign_lastGetStatusTime 500, Call_RestartXrayService, Call_FileClose])
   \<and> count_list [Call_FormFile ''db'', Call_ImportDB ''SQLite'', JsonMsg (Msg '''') (Some ''not a database''),
           Assign_lastGetStatusTime 500, Call_RestartXrayService, Call_FileClose :: nat event]
        Call_RestartXrayService = 1
   \<and> precedes (Call_ImportDB ''SQLite'') Call_RestartXrayService
        [Call_FormFile ''db'', Call_ImportDB ''SQLite'', JsonMsg (Msg '''') (Some ''not a database''),
           Assign_lastGetStatusTime 500, Call_RestartXrayService, Call_FileClose :: nat event]"
proof -
  have run: "importDB (''SQLite'', None) (Some ''not a database'') 500 (NewServerController 0 :: nat ServerController)
       = (\<lparr>lastStatus = None, lastGetStatusTime = 500, lastVersions = None, lastGetVersionsTime = zeroTime\<rparr>,
          [Call_FormFile ''db'', Call_ImportDB ''SQLite'', JsonMsg (Msg '''') (Some ''not a database''),
           Assign_lastGetStatusTime 500, Call_RestartXrayService, Call_FileClose])"
    by (simp add: importDB_def NewServerController_def)
  have h: "snd (''SQLite'' :: bytes, None :: error option) = None" by simp
  from importDB_always_restarts [OF h run] run show ?thesis by simp
qed

text \<open>
  C2: a tick that finds the liveness marker more than three minutes old does nothing:
  no call of the status collector, no assignment, the controller as it was.
\<close>

theorem tick_idle_changes_nothing:
  "now - lastGetStatusTime a > Minute * 3 \<Longrightarrow> tick GetStatus now a = (a, [])"
  by (simp add: tick_def Sub_gt_3_Minute)

theorem tick_idle_changes_nothing_witness:
  "181 * Second - lastGetStatusTime (NewServerController 0 :: nat ServerController) > Minute * 3
   \<and> tick (\<lambda>p. Some 7) (181 * Second) (NewServerController 0 :: nat ServerController)
       = (NewServerController 0, [])"
proof -
  have h: "181 * Second - lastGetStatusTime (NewServerController 0 :: nat ServerController) > Minute * 3"
    by (simp add: NewServerController_def Minute_def Second_def)
  from tick_idle_changes_nothing [OF h] h show ?thesis by simp
qed

text \<open>
  C3: a call of get-versions that finds the cache stale and whose fetch succeeds stores
  the fetched list and the time read after the fetch; a following call no later than one
  minute after that time does not call \<open>GetXrayVersions\<close>, answers with the stored
  list and changes nothing.
\<close>

theorem getXrayVersion_second_call_cached:
  "\<not> now1 - lastGetVersionsTime a \<le> Minute \<Longrightarrow>
   getXrayVersion now1 (versions, None) now1' a = (a1, es1) \<Longrightarrow>
   now2 - now1' \<le> Minute \<Longrightarrow>
     Call_GetXrayVersions \<in> set es1
   \<and> lastVersions a1 = versions
   \<and> getXrayVersion now2 GetXrayVersions2 now2' a1 = (a1, [JsonObj (PVersions versions) None])
   \<and> Call_GetXrayVersions \<notin> set (snd (getXrayVersion now2 GetXrayVersions2 now2' a1))"
proof -
  assume stale: "\<not> now1 - lastGetVersionsTime a \<le> Minute"
    and first: "getXrayVersion now1 (versions, None) now1' a = (a1, es1)"
    and within: "now2 - now1' \<le> Minute"
  from stale first have a1: "a1 = a\<lparr>lastVersions := versions, lastGetVersionsTime := now1'\<rparr>"
    and es1: "es1 = [Call_GetXrayVersions, Assign_lastVersions versions,
                     Assign_lastGetVersionsTime now1', JsonObj (PVersions versions) None]"
    by (auto simp: getXrayVersion_def Sub_le_Minute)
  from within a1 have "now2 - lastGetVersionsTime a1 \<le> Minute" by simp
  from getXrayVersion_fresh [OF this, of GetXrayVersions2 now2'] a1
  have second: "getXrayVersion now2 GetXrayVersions2 now2' a1 = (a1, [JsonObj (PVersions versions) None])"
    by simp
  from a1 es1 second show ?thesis by simp
qed

theorem getXrayVersion_second_call_cached_witness:
  "getXrayVersion (30 * Second) (Some [''9.9''], None) (31 * Second)
     (\<lparr>lastStatus = None, lastGetStatusTime = 0,
       lastVersions = Some [''1.0'', ''1.1''], lastGetVersionsTime = 0\<rparr> :: nat ServerController)
   = (\<lparr>lastStatus = None, lastGetStatusTime = 0,
       lastVersions = Some [''1.0'', ''1.1''], lastGetVersionsTime = 0\<rparr>,
      [JsonObj (PVersions (Some [''1.0'', ''1.1''])) None])"
proof -
  have stale: "\<not> 0 - lastGetVersionsTime (NewServerController 0 :: nat ServerController) \<le> Minute"
    by (simp add: NewServerController_def zeroTime_def Minute_def Second_def)
  have first: "getXrayVersion 0 (Some [''1.0'', ''1.1''], None) 0 (NewServerController 0 :: nat ServerController)
     = (\<lparr>lastStatus = None, lastGetStatusTime = 0,
         lastVersions = Some [''1.0'', ''1.1''], lastGetVersionsTime = 0\<rparr>,
        [Call_GetXrayVersions, Assign_lastVersions (Some [''1.0'', ''1.1'']),
         Assign_lastGetVersionsTime 0, JsonObj (PVersions (Some [''1.0'', ''1.1''])) None])"
    unfolding getXrayVersion_def Sub_le_Minute
    by (simp add: NewServerController_def zeroTime_def Minute_def Second_def)
  have within: "30 * Second - 0 \<le> Minute" by (simp add: Minute_def Second_def)
  from getXrayVersion_second_call_cached [OF stale first within, of "(Some [''9.9''], None)" "31 * Second"]
  show ?thesis by simp
qed

text \<open>
  C4: a call of get-versions that finds the cache stale and whose fetch fails answers with
  the error through \<open>jsonMsg\<close>, sends no version list, and leaves the cached list and its
  time as they were.
\<close>

theorem getXrayVersion_failed_fetch:
  "\<not> now - lastGetVersionsTime a \<le> Minute \<Longrightarrow>
     getXrayVersion now (versions, Some e) now2 a
       = (a, [Call_GetXrayVersions, JsonMsg (I18nWeb ''getVersion'') (Some e)])
   \<and> filter is_JsonObj (snd (getXrayVersion now (versions, Some e) now2 a)) = []
   \<and> lastVersions (fst (getXrayVersion now (versions, Some e) now2 a)) = lastVersions a
   \<and> lastGetVersionsTime (fst (getXrayVersion now (versions, Some e) now2 a)) = lastGetVersionsTime a"
  by (simp add: getXrayVersion_def Sub_le_Minute)

theorem getXrayVersion_failed_fetch_witness:
  "\<not> 61 * Second - lastGetVersionsTime
        (\<lparr>lastStatus = None, lastGetStatusTime = 0,
          lastVersions = Some [''1.0'', ''1.1''], lastGetVersionsTime = 0\<rparr> :: nat ServerController)
      \<le> Minute
   \<and> getXrayVersion (61 * Second) (None, Some ''no network'') (62 * Second)
       (\<lparr>lastStatus = None, lastGetStatusTime = 0,
         lastVersions = Some [''1.0'', ''1.1''], lastGetVersionsTime = 0\<rparr> :: nat ServerController)
     = (\<lparr>lastStatus = None, lastGetStatusTime = 0,
         lastVersions = Some [''1.0'', ''1.1''], lastGetVersionsTime = 0\<rparr>,
        [Call_GetXrayVersions, JsonMsg (I18nWeb ''getVersion'') (Some ''no network'')])"
proof -
  have h: "\<not> 61 * Second - lastGetVersionsTime
        (\<lparr>lastStatus = None, lastGetStatusTime = 0,
          lastVersions = Some [''1.0'', ''1.1''], lastGetVersionsTime = 0\<rparr> :: nat ServerController)
      \<le> Minute"
    by (simp add: Minute_def Second_def)
  from getXrayVersion_failed_fetch [OF h, of None "''no network''" "62 * Second"] h
  show ?thesis by simp
qed




text \<open>
  C6: after a status read at \<open>now1\<close>, a tick no later than three minutes after it calls
  the status collector with the stored snapshot and stores the result, whatever the
  controller was before the read (for one, idle for long).
\<close>

theorem tick_after_status_refreshes:
  "now2 - now1 \<le> Minute * 3 \<Longrightarrow> status now1 a = (a1, es1) \<Longrightarrow>
     tick GetStatus now2 a1
       = (a1\<lparr>lastStatus := GetStatus (lastStatus a)\<rparr>,
          [Call_GetStatus (lastStatus a), Assign_lastStatus (GetStatus (lastStatus a))])
   \<and> lastStatus (fst (tick GetStatus now2 a1)) = GetStatus (lastStatus a)"
  by (auto simp: status_def tick_def refreshStatus_def Sub_gt_3_Minute)

theorem tick_after_status_refreshes_witness:
  "tick (\<lambda>p. Some 7) (200 * Second) (NewServerController 0 :: nat ServerController)
     = (NewServerController 0, [])
   \<and> tick (\<lambda>p. Some 7) (302 * Second)
       (fst (status (300 * Second) (NewServerController 0 :: nat ServerController)))
     = (\<lparr>lastStatus = Some 7, lastGetStatusTime = 300 * Second,
         lastVersions = None, lastGetVersionsTime = zeroTime\<rparr>,
        [Call_GetStatus None, Assign_lastStatus (Some 7)])"
proof -
  have idle: "tick (\<lambda>p. Some 7) (200 * Second) (NewServerController 0 :: nat ServerController)
     = (NewServerController 0, [])"
    unfolding tick_def Sub_gt_3_Minute
    by (simp add: NewServerController_def Minute_def Second_def)
  have h: "302 * Second - 300 * Second \<le> Minute * 3" by (simp add: Minute_def Second_def)
  have st: "status (300 * Second) (NewServerController 0 :: nat ServerController)
     = (\<lparr>lastStatus = None, lastGetStatusTime = 300 * Second,
         lastVersions = None, lastGetVersionsTime = zeroTime\<rparr>,
        [Assign_lastGetStatusTime (300 * Second), JsonObj (PStatus None) None])"
    by (simp add: status_def NewServerController_def)
  from tick_after_status_refreshes [OF h st, of "\<lambda>p. Some 7"] st idle
  show ?thesis by (simp add: NewServerController_def)
qed

text \<open>
  C7: a status read answers with the stored snapshot and nothing else, leaves the
  snapshot and the version cache as they are, and sets the liveness marker
  \<open>lastGetStatusTime\<close> to the time of the read. The snapshot is the one the last
  refresh stored, and empty on a new controller.
\<close>

theorem status_returns_snapshot_and_marks_liveness:
  "snd (status now a) = [Assign_lastGetStatusTime now, JsonObj (PStatus (lastStatus a)) None]
   \<and> lastStatus (fst (status now a)) = lastStatus a
   \<and> lastGetStatusTime (fst (status now a)) = now
   \<and> lastVersions (fst (status now a)) = lastVersions a
   \<and> lastGetVersionsTime (fst (status now a)) = lastGetVersionsTime a
   \<and> filter is_JsonObj (snd (status now (fst (refreshStatus GetStatus a))))
       = [JsonObj (PStatus (GetStatus (lastStatus a))) None]
   \<and> filter is_JsonObj (snd (status now (NewServerController t0 :: 'st ServerController)))
       = [JsonObj (PStatus None) None]"
  by (simp add: status_def refreshStatus_def NewServerController_def)

text \<open>
  C8: a stop request sets the liveness marker to the time it reads, and does so before
  it calls \<open>StopXrayService\<close>; a restart request calls \<open>RestartXrayService\<close> and
  assigns to no field, so the liveness marker is as it was.
\<close>

theorem stop_marks_liveness_restart_does_not:
  "lastGetStatusTime (fst (stopXrayService now err a)) = now
   \<and> precedes (Assign_lastGetStatusTime now) Call_StopXrayService (snd (stopXrayService now err a))
   \<and> \<not> precedes Call_StopXrayService (Assign_lastGetStatusTime now) (snd (stopXrayService now err a))
   \<and> count_list (snd (stopXrayService now err a)) Call_StopXrayService = 1
   \<and> fst (restartXrayService err' a) = a
   \<and> lastGetStatusTime (fst (restartXrayService err' a)) = lastGetStatusTime a
   \<and> filter is_Assign_lastGetStatusTime (snd (restartXrayService err' a)) = []
   \<and> count_list (snd (restartXrayService err' a)) Call_RestartXrayService = 1"
  by (simp add: stopXrayService_def restartXrayService_def)

text \<open>
  C9: when reading the uploaded file fails, an import request answers with that error
  and does nothing else: no call of \<open>ImportDB\<close>, no restart, no assignment to the
  liveness marker, the controller unchanged.
\<close>

theorem importDB_unreadable_file:
  "snd FormFile \<noteq> None \<Longrightarrow>
     importDB FormFile ImportDB now a
       = (a, [Call_FormFile ''db'', JsonMsg (Msg ''Error reading db file'') (snd FormFile)])
   \<and> filter is_Call_ImportDB (snd (importDB FormFile ImportDB now a)) = []
   \<and> count_list (snd (importDB FormFile ImportDB now a)) Call_RestartXrayService = 0
   \<and> filter is_Assign_lastGetStatusTime (snd (importDB FormFile ImportDB now a)) = []"
  by (cases FormFile) (simp add: importDB_def)

theorem importDB_unreadable_file_witness:
  "snd ([] :: bytes, Some ''http: no such file'') \<noteq> None
   \<and> importDB ([], Some ''http: no such file'') None 500 (NewServerController 0 :: nat ServerController)
       = (NewServerController 0,
          [Call_FormFile ''db'', JsonMsg (Msg ''Error reading db file'') (Some ''http: no such file'')])"
proof -
  have h: "snd ([] :: bytes, Some ''http: no such file'') \<noteq> None" by simp
  from importDB_unreadable_file [OF h, of None 500 "NewServerController 0 :: nat ServerController"] h
  show ?thesis by simp
qed

text \<open>
  C10: a new controller has the time of its construction as liveness marker, and every
  tick no later than three minutes after it refreshes the snapshot, with no request in
  between: the ticks make one call of the status collector each, and the snapshot at the
  end is the collectors' results chained from the empty snapshot.
\<close>

theorem new_controller_starts_active:
  "\<forall>(GetStatus, now) \<in> set ts. now - t0 \<le> Minute * 3 \<Longrightarrow>
   ticks ts (NewServerController t0 :: 'st ServerController) = (a', es) \<Longrightarrow>
     lastGetStatusTime (NewServerController t0 :: 'st ServerController) = t0
   \<and> lastStatus (NewServerController t0 :: 'st ServerController) = None
   \<and> length (filter is_Call_GetStatus es) = length ts
   \<and> length es = 2 * length ts
   \<and> lastStatus a' = fold (\<lambda>(GetStatus, now) s. GetStatus s) ts None
   \<and> lastGetStatusTime a' = t0"
proof -
  assume times: "\<forall>(GetStatus, now) \<in> set ts. now - t0 \<le> Minute * 3"
    and run: "ticks ts (NewServerController t0 :: 'st ServerController) = (a', es)"
  have t0: "lastGetStatusTime (NewServerController t0 :: 'st ServerController) = t0"
    and none: "lastStatus (NewServerController t0 :: 'st ServerController) = None"
    by (simp_all add: NewServerController_def)
  from times t0
  have "\<forall>(GetStatus, now) \<in> set ts.
          now - lastGetStatusTime (NewServerController t0 :: 'st ServerController) \<le> Minute * 3"
    by simp
  from ticks_active [OF this run] t0 none show ?thesis by simp
qed

theorem new_controller_starts_active_witness:
  "ticks [(\<lambda>p. Some 1, 2 * Second), (\<lambda>p. Some (Suc (the p)), 4 * Second),
          (\<lambda>p. Some (Suc (the p)), 180 * Second)]
     (NewServerController 0 :: nat ServerController)
   = (\<lparr>lastStatus = Some 3, lastGetStatusTime = 0, lastVersions = None, lastGetVersionsTime = zeroTime\<rparr>,
      [Call_GetStatus None, Assign_lastStatus (Some 1),
       Call_GetStatus (Some 1), Assign_lastStatus (Some 2),
       Call_GetStatus (Some 2), Assign_lastStatus (Some 3)])
   \<and> length (filter is_Call_GetStatus
       [Call_GetStatus None, Assign_lastStatus (Some 1),
        Call_GetStatus (Some 1), Assign_lastStatus (Some 2),
        Call_GetStatus (Some 2), Assign_lastStatus (Some (3 :: nat))]) = 3"
proof -
  have times: "\<forall>(GetStatus, now) \<in> set [(\<lambda>p. Some 1, 2 * Second), (\<lambda>p :: nat option. Some (Suc (the p)), 4 * Second),
          (\<lambda>p. Some (Suc (the p)), 180 * Second)]. now - 0 \<le> Minute * 3"
    by (simp add: Minute_def Second_def)
  have run: "ticks [(\<lambda>p. Some 1, 2 * Second), (\<lambda>p. Some (Suc (the p)), 4 * Second),
          (\<lambda>p. Some (Suc (the p)), 180 * Second)]
     (NewServerController 0 :: nat ServerController)
   = (\<lparr>lastStatus = Some 3, lastGetStatusTime = 0, lastVersions = None, lastGetVersionsTime = zeroTime\<rparr>,
      [Call_GetStatus None, Assign_lastStatus (Some 1),
       Call_GetStatus (Some 1), Assign_lastStatus (Some 2),
       Call_GetStatus (Some 2), Assign_lastStatus (Some 3)])"
    unfolding ticks.simps tick_def Sub_gt_3_Minute
    by (simp add: refreshStatus_def NewServerController_def Minute_def Second_def eval_nat_numeral)
  from new_controller_starts_active [OF times run] run show ?thesis by simp
qed

end
